theory Spec2Isabelle
  imports Main "HOL-Library.AList"
begin

section \<open>Scalars, arrays and errors\<close>

text \<open>
  The element values of a column.  Floating point values are left out of the model;
  equality of scalars (\<open>==\<close> on numpy scalars, and the hashing of group keys) is
  equality of \<open>val\<close>.
\<close>

datatype val = IntV int | StrV string | BoolV bool

text \<open>
  A one-dimensional \<open>np.ndarray\<close>: the string form of its dtype (\<open>str(a.dtype)\<close>,
  such as \<open>int64\<close>, \<open>object\<close> or \<open><U3\<close>) and its elements.
\<close>

record ndarray =
  dtype :: string
  elems :: "val list"

definition len :: "ndarray \<Rightarrow> nat" where
  "len a = length (elems a)"

text \<open>
  The value handed to \<open>Tafra._validate\<close> after \<open>np.asarray\<close>: an array of any
  dimension, given by its shape and its elements in row-major order.
\<close>

record nd_value =
  nd_dtype :: string
  nd_shape :: "nat list"
  nd_flat :: "val list"

definition nd_ok :: "nd_value \<Rightarrow> bool" where
  "nd_ok v = (prod_list (nd_shape v) = length (nd_flat v))"

text \<open>
  Every \<open>raise\<close> of the module, and the exceptions of Python and numpy that its
  statements can throw.  The \<open>ValueError\<close>s are told apart by their message.
\<close>

datatype error =
    ValueError_row_counts
      \<comment> \<open>\<open>__post_init__\<close>: `Tafra` must have consistent row counts.\<close>
  | ValueError_assigned_rows nat nat
      \<comment> \<open>\<open>_validate\<close>: this `Tafra` has \<open>m\<close> rows, assigned array has \<open>n\<close> rows\<close>
  | ValueError_other_rows nat nat
      \<comment> \<open>\<open>update\<close>: this `Tafra` has \<open>m\<close> rows, other `Tafra` has \<open>n\<close> rows\<close>
  | ValueError_ndim
      \<comment> \<open>\<open>_validate\<close>: `ndarray` or `np.squeeze(ndarray)` must have ndim == 1\<close>
  | ValueError_dtypes "(string \<times> string) list"
      \<comment> \<open>\<open>_validate_types\<close>: one (tag, column) pair per line of the message\<close>
  | ValueError_aggregation
      \<comment> \<open>\<open>AggMethod.__post_init__\<close>: not a valid aggregation argument\<close>
  | ValueError_numpy
      \<comment> \<open>numpy could not convert or store an element\<close>
  | KeyError string
  | IndexError
  | TypeError_unsized
      \<comment> \<open>\<open>len()\<close> of a zero-dimensional array\<close>
  | TypeError_operand
      \<comment> \<open>an operator applied to operands it does not support\<close>
  | TypeError_columns
      \<comment> \<open>a union of tables whose column names differ\<close>
  | TypeError_dtypes
      \<comment> \<open>a union of tables whose type tags differ\<close>
  | AssertionError

section \<open>The numpy operations the module relies on\<close>

text \<open>
  numpy is not part of the repository.  Its element conversions are a parameter:
  \<open>np_convert np T x\<close> is the element that \<open>a.astype(T)\<close> produces from \<open>x\<close>
  for the entry \<open>T\<close> of \<open>TAFRA_TYPE\<close> (\<open>None\<close> when numpy raises),
  \<open>np_dtype_of np T xs\<close> is the dtype string of the converted array, and
  \<open>np_uninit np i\<close> is the content of cell \<open>i\<close> of a fresh \<open>np.empty\<close> array.
  Storing a scalar into an array cell stores it as it is.
\<close>

record numpy =
  np_convert :: "string \<Rightarrow> val \<Rightarrow> val option"
  np_dtype_of :: "string \<Rightarrow> val list \<Rightarrow> string"
  np_uninit :: "nat \<Rightarrow> val"

fun convert_all :: "(val \<Rightarrow> val option) \<Rightarrow> val list \<Rightarrow> val list option" where
  "convert_all f [] = Some []"
| "convert_all f (x # xs) =
     (case f x of
        None \<Rightarrow> None
      | Some y \<Rightarrow> (case convert_all f xs of None \<Rightarrow> None | Some ys \<Rightarrow> Some (y # ys)))"

definition astype :: "numpy \<Rightarrow> string \<Rightarrow> ndarray \<Rightarrow> error + ndarray" where
  "astype np T a =
     (case convert_all (np_convert np T) (elems a) of
        None \<Rightarrow> Inl ValueError_numpy
      | Some vs \<Rightarrow> Inr \<lparr>dtype = np_dtype_of np T vs, elems = vs\<rparr>)"

definition np_empty :: "numpy \<Rightarrow> nat \<Rightarrow> string \<Rightarrow> ndarray" where
  "np_empty np n dt = \<lparr>dtype = dt, elems = map (np_uninit np) [0..<n]\<rparr>"

definition squeeze :: "nat list \<Rightarrow> nat list" where
  "squeeze shp = filter (\<lambda>n. n \<noteq> 1) shp"

text \<open>\<open>a[mask]\<close> for a boolean mask: numpy requires the mask to be as long as the array.\<close>

definition mask_get :: "'a list \<Rightarrow> bool list \<Rightarrow> 'a list" where
  "mask_get xs msk = map fst (filter snd (zip xs msk))"

definition getitem_mask :: "ndarray \<Rightarrow> bool list \<Rightarrow> error + ndarray" where
  "getitem_mask a msk =
     (if length msk \<noteq> len a then Inl IndexError
      else Inr (a\<lparr>elems := mask_get (elems a) msk\<rparr>))"

section \<open>Type tags\<close>

definition TAFRA_TYPE :: "string list" where
  "TAFRA_TYPE = [''int'', ''float'', ''bool'', ''str'', ''date'', ''object'']"

fun starts_with :: "string \<Rightarrow> string \<Rightarrow> bool" where
  "starts_with [] s = True"
| "starts_with (p # ps) [] = False"
| "starts_with (p # ps) (c # cs) = (p = c \<and> starts_with ps cs)"

text \<open>Python's \<open>p in s\<close> on strings.\<close>

fun str_in :: "string \<Rightarrow> string \<Rightarrow> bool" where
  "str_in p [] = (p = [])"
| "str_in p (c # cs) = (starts_with p (c # cs) \<or> str_in p cs)"

definition format_type :: "string \<Rightarrow> string" where
  "format_type t =
     (if str_in ''int'' t then ''int''
      else if str_in ''float'' t then ''float''
      else if str_in ''bool'' t then ''bool''
      else if str_in ''str'' t then ''str''
      else if str_in ''<U'' t then ''str''
      else if str_in ''date'' t then ''date''
      else if str_in ''<M'' t then ''date''
      else if str_in ''object'' t then ''object''
      else if str_in ''O'' t then ''object''
      else t)"

definition apply_type :: "numpy \<Rightarrow> string \<Rightarrow> ndarray \<Rightarrow> error + ndarray" where
  "apply_type np t a = (if t \<in> set TAFRA_TYPE then astype np t a else Inl (KeyError t))"

section \<open>The Tafra class\<close>

text \<open>
  The two dictionaries of a \<open>Tafra\<close>, in insertion order.  A method that mutates
  \<open>self\<close> returns the exception it raised, if any, together with the state it left.
\<close>

record tafra =
  data :: "(string \<times> ndarray) list"
  dtypes :: "(string \<times> string) list"

definition columns :: "tafra \<Rightarrow> string list" where
  "columns t = map fst (data t)"

definition rows :: "tafra \<Rightarrow> nat" where
  "rows t = (case data t of [] \<Rightarrow> 0 | (c, a) # rest \<Rightarrow> len a)"

text \<open>The loop of \<open>__post_init__\<close> over \<open>self._data.items()\<close>; \<open>rows\<close> starts as \<open>None\<close>.\<close>

fun post_init_rows :: "nat option \<Rightarrow> (string \<times> ndarray) list \<Rightarrow> error + unit" where
  "post_init_rows r [] = Inr ()"
| "post_init_rows None ((column, vals) # rest) = post_init_rows (Some (len vals)) rest"
| "post_init_rows (Some n) ((column, vals) # rest) =
     (if n \<noteq> len vals then Inl ValueError_row_counts else post_init_rows (Some n) rest)"

text \<open>
  \<open>_validate_types\<close>; each requested dtype is given by its string form \<open>str(t)\<close>, which
  is all that \<open>_format_type\<close> reads.
\<close>

definition validate_types :: "(string \<times> string) list \<Rightarrow> error + (string \<times> string) list" where
  "validate_types dts =
     (let (msg, ds) =
        fold (\<lambda>(column, dt) (msg, ds).
                let tag = format_type dt
                in (if tag \<in> set TAFRA_TYPE then msg else msg @ [(tag, column)],
                    AList.update column tag ds))
             dts ([], [])
      in if length msg > 0 then Inl (ValueError_dtypes msg) else Inr ds)"

text \<open>\<open>d.update(other)\<close> on dictionaries.\<close>

definition dict_update :: "('k \<times> 'v) list \<Rightarrow> ('k \<times> 'v) list \<Rightarrow> ('k \<times> 'v) list" where
  "dict_update d other = fold (\<lambda>(k, v). AList.update k v) other d"

text \<open>The loop of \<open>update_types\<close> over \<open>self._dtypes.keys()\<close>.\<close>

fun update_types_loop ::
  "numpy \<Rightarrow> (string \<times> string) list \<Rightarrow> (string \<times> ndarray) list
     \<Rightarrow> error option \<times> (string \<times> ndarray) list" where
  "update_types_loop np [] d = (None, d)"
| "update_types_loop np ((column, tag) # rest) d =
     (case map_of d column of
        None \<Rightarrow> (Some (KeyError column), d)
      | Some a \<Rightarrow>
          if format_type (dtype a) \<noteq> tag
          then (case apply_type np tag a of
                  Inl e \<Rightarrow> (Some e, d)
                | Inr a' \<Rightarrow> update_types_loop np rest (AList.update column a' d))
          else update_types_loop np rest d)"

definition update_types ::
  "numpy \<Rightarrow> tafra \<Rightarrow> (string \<times> string) list option \<Rightarrow> error option \<times> tafra" where
  "update_types np t arg =
     (case (case arg of
              None \<Rightarrow> Inr t
            | Some dts \<Rightarrow>
                (case validate_types dts of
                   Inl e \<Rightarrow> Inl e
                 | Inr ds \<Rightarrow> Inr (t\<lparr>dtypes := dict_update (dtypes t) ds\<rparr>))) of
        Inl e \<Rightarrow> (Some e, t)
      | Inr t1 \<Rightarrow>
          (case update_types_loop np (dtypes t1) (data t1) of
             (r, d) \<Rightarrow> (r, t1\<lparr>data := d\<rparr>)))"

definition coalesce_types :: "tafra \<Rightarrow> tafra" where
  "coalesce_types t =
     t\<lparr>dtypes :=
         fold (\<lambda>(column, a) ds.
                 if map_of ds column = None
                 then AList.update column (format_type (dtype a)) ds else ds)
              (data t) (dtypes t)\<rparr>"

definition post_init :: "numpy \<Rightarrow> tafra \<Rightarrow> error + tafra" where
  "post_init np t =
     (case post_init_rows None (data t) of
        Inl e \<Rightarrow> Inl e
      | Inr u \<Rightarrow>
          if dtypes t \<noteq> []
          then (case update_types np t None of
                  (Some e, t') \<Rightarrow> Inl e
                | (None, t') \<Rightarrow> Inr (coalesce_types t'))
          else Inr (coalesce_types (t\<lparr>dtypes := []\<rparr>)))"

text \<open>The constructor \<open>Tafra(_data, _dtypes)\<close>; \<open>_dtypes\<close> defaults to \<open>{}\<close>.\<close>

definition Tafra ::
  "numpy \<Rightarrow> (string \<times> ndarray) list \<Rightarrow> (string \<times> string) list \<Rightarrow> error + tafra" where
  "Tafra np d ds = post_init np \<lparr>data = d, dtypes = ds\<rparr>"

text \<open>\<open>Tafra._validate\<close>, on the value that \<open>np.asarray\<close> returned.\<close>

definition Tafra_validate :: "tafra \<Rightarrow> nd_value \<Rightarrow> error + ndarray" where
  "Tafra_validate t v =
     (case (if length (nd_shape v) > 1
            then (let sq = squeeze (nd_shape v)
                  in if length sq > 1 then Inl ValueError_ndim
                     else if length sq = 1 then Inr sq
                     else Inl AssertionError)
            else Inr (nd_shape v)) of
        Inl e \<Rightarrow> Inl e
      | Inr shp \<Rightarrow>
          (case shp of
             [] \<Rightarrow> Inl TypeError_unsized
           | n # ns \<Rightarrow>
               if n \<noteq> rows t then Inl (ValueError_assigned_rows (rows t) n)
               else Inr \<lparr>dtype = nd_dtype v, elems = nd_flat v\<rparr>))"

definition setitem :: "tafra \<Rightarrow> string \<Rightarrow> nd_value \<Rightarrow> error option \<times> tafra" where
  "setitem t item v =
     (case Tafra_validate t v of
        Inl e \<Rightarrow> (Some e, t)
      | Inr a \<Rightarrow>
          (None, t\<lparr>data := AList.update item a (data t),
                   dtypes := AList.update item (format_type (dtype a)) (dtypes t)\<rparr>))"

text \<open>\<open>t[item]\<close> for a string \<open>item\<close>.\<close>

definition getitem :: "tafra \<Rightarrow> string \<Rightarrow> error + ndarray" where
  "getitem t item = (case map_of (data t) item of None \<Rightarrow> Inl (KeyError item) | Some a \<Rightarrow> Inr a)"

text \<open>The loop of \<open>update\<close> over \<open>other._data.items()\<close>; \<open>rows\<close> is read once, before it.\<close>

fun update_loop ::
  "nat \<Rightarrow> (string \<times> ndarray) list \<Rightarrow> (string \<times> ndarray) list
     \<Rightarrow> error option \<times> (string \<times> ndarray) list" where
  "update_loop n [] d = (None, d)"
| "update_loop n ((column, vals) # rest) d =
     (if len vals \<noteq> n then (Some (ValueError_other_rows n (len vals)), d)
      else update_loop n rest (AList.update column vals d))"

definition update :: "numpy \<Rightarrow> tafra \<Rightarrow> tafra \<Rightarrow> error option \<times> tafra" where
  "update np t other =
     (case update_loop (rows t) (data other) (data t) of
        (Some e, d) \<Rightarrow> (Some e, t\<lparr>data := d\<rparr>)
      | (None, d) \<Rightarrow> update_types np (t\<lparr>data := d\<rparr>) (Some (dtypes other)))"

definition delete :: "tafra \<Rightarrow> string \<Rightarrow> tafra" where
  "delete t column =
     t\<lparr>data := AList.delete column (data t), dtypes := AList.delete column (dtypes t)\<rparr>"

text \<open>Invariant I2: every column is as long as \<open>rows\<close> says.\<close>

definition consistent :: "tafra \<Rightarrow> bool" where
  "consistent t = list_all (\<lambda>(c, a). len a = rows t) (data t)"

text \<open>Every array of a dictionary has length \<open>n\<close>.\<close>

definition all_len :: "nat \<Rightarrow> (string \<times> ndarray) list \<Rightarrow> bool" where
  "all_len n d = list_all (\<lambda>(c, a). len a = n) d"

section \<open>More numpy operations: masks and cell writes\<close>

text \<open>
  \<open>w &= e\<close> on boolean arrays of one length (numpy would broadcast an operand of
  length one; the columns of a consistent table never differ in length).
\<close>

definition mask_and :: "bool list \<Rightarrow> bool list \<Rightarrow> error + bool list" where
  "mask_and w e =
     (if length w \<noteq> length e then Inl ValueError_numpy
      else Inr (map (\<lambda>(p, q). p \<and> q) (zip w e)))"

text \<open>\<open>a == v\<close> for an array and a scalar.\<close>

definition eq_scalar :: "ndarray \<Rightarrow> val \<Rightarrow> bool list" where
  "eq_scalar a v = map (\<lambda>x. x = v) (elems a)"

text \<open>\<open>a[i] = v\<close> for an index \<open>i \<ge> 0\<close>.\<close>

definition array_set :: "ndarray \<Rightarrow> nat \<Rightarrow> val \<Rightarrow> error + ndarray" where
  "array_set a i v =
     (if i < len a then Inr (a\<lparr>elems := (elems a)[i := v]\<rparr>) else Inl IndexError)"

text \<open>\<open>a[mask] = vs\<close>: the cells selected by the mask take the values of \<open>vs\<close> in order.\<close>

fun mask_put :: "'a list \<Rightarrow> bool list \<Rightarrow> 'a list \<Rightarrow> 'a list" where
  "mask_put (x # xs) (b # bs) vs =
     (if b then (case vs of [] \<Rightarrow> x # mask_put xs bs [] | v # vs' \<Rightarrow> v # mask_put xs bs vs')
      else x # mask_put xs bs vs)"
| "mask_put xs bs vs = xs"

definition setitem_mask :: "ndarray \<Rightarrow> bool list \<Rightarrow> val list \<Rightarrow> error + ndarray" where
  "setitem_mask a msk vs =
     (if length msk \<noteq> len a then Inl IndexError
      else if length vs \<noteq> length (filter id msk) then Inl ValueError_numpy
      else Inr (a\<lparr>elems := mask_put (elems a) msk vs\<rparr>))"

text \<open>\<open>a[mask] = v\<close> for a scalar \<open>v\<close>.\<close>

definition fill_mask :: "ndarray \<Rightarrow> bool list \<Rightarrow> val \<Rightarrow> error + ndarray" where
  "fill_mask a msk v =
     (if length msk \<noteq> len a then Inl IndexError
      else Inr (a\<lparr>elems := map (\<lambda>(x, b). if b then v else x) (zip (elems a) msk)\<rparr>))"

section \<open>Indexing a Tafra by a boolean array\<close>

text \<open>A dictionary comprehension whose value expression can raise.\<close>

fun dict_comp :: "('k \<Rightarrow> 'a \<Rightarrow> error + 'b) \<Rightarrow> ('k \<times> 'a) list \<Rightarrow> ('k \<times> 'b) list
                    \<Rightarrow> error + ('k \<times> 'b) list" where
  "dict_comp f [] acc = Inr acc"
| "dict_comp f ((k, x) # rest) acc =
     (case f k x of Inl e \<Rightarrow> Inl e | Inr y \<Rightarrow> dict_comp f rest (AList.update k y acc))"

text \<open>\<open>Tafra._index\<close> for a one-dimensional boolean array (\<open>index.ndim = 1\<close>).\<close>

definition index :: "numpy \<Rightarrow> tafra \<Rightarrow> bool list \<Rightarrow> error + tafra" where
  "index np t msk =
     (case dict_comp (\<lambda>column a. getitem_mask a msk) (data t) [] of
        Inl e \<Rightarrow> Inl e
      | Inr d \<Rightarrow> Tafra np d (dict_update [] (dtypes t)))"

section \<open>Aggregation: AggMethod, GroupBy, Transform, IterateBy\<close>

text \<open>
  A reduction is a Python callable on the selected sub-array; it may raise.  The values
  of an \<open>InitAggregation\<close> are a callable, a pair of a callable and a source column, or
  anything else.
\<close>

type_synonym reduction = "ndarray \<Rightarrow> error + val"

datatype agg_arg = Fn reduction | FnCol reduction string | NotAnAggregation

record agg_method =
  group_by_cols :: "string list"
  aggregation :: "(string \<times> reduction \<times> string) list"

fun AggMethod_post_init ::
  "(string \<times> agg_arg) list \<Rightarrow> (string \<times> reduction \<times> string) list
     \<Rightarrow> error + (string \<times> reduction \<times> string) list" where
  "AggMethod_post_init [] acc = Inr acc"
| "AggMethod_post_init ((rename, Fn f) # rest) acc =
     AggMethod_post_init rest (AList.update rename (f, rename) acc)"
| "AggMethod_post_init ((rename, FnCol f col) # rest) acc =
     AggMethod_post_init rest (AList.update rename (f, col) acc)"
| "AggMethod_post_init ((rename, NotAnAggregation) # rest) acc = Inl ValueError_aggregation"

definition AggMethod :: "string list \<Rightarrow> (string \<times> agg_arg) list \<Rightarrow> error + agg_method" where
  "AggMethod gb agg =
     (case AggMethod_post_init agg [] of
        Inl e \<Rightarrow> Inl e
      | Inr a \<Rightarrow> Inr \<lparr>group_by_cols = gb, aggregation = a\<rparr>)"

fun first_missing :: "string list \<Rightarrow> string list \<Rightarrow> string option" where
  "first_missing cols [] = None"
| "first_missing cols (col # rest) =
     (if col \<notin> set cols then Some col else first_missing cols rest)"

definition AggMethod_validate :: "agg_method \<Rightarrow> tafra \<Rightarrow> error + unit" where
  "AggMethod_validate m t =
     (case first_missing (columns t) (group_by_cols m) of
        Some col \<Rightarrow> Inl (KeyError col)
      | None \<Rightarrow>
          (case first_missing (columns t) (map (\<lambda>(rename, f, col). col) (aggregation m)) of
             Some col \<Rightarrow> Inl (KeyError col)
           | None \<Rightarrow> Inr ()))"

text \<open>Python's \<open>zip(*cols)\<close>: no tuple at all for no column, else one tuple per row.\<close>

fun py_zip :: "'a list list \<Rightarrow> 'a list list" where
  "py_zip [] = []"
| "py_zip [c] = map (\<lambda>x. [x]) c"
| "py_zip (c # cs) = map (\<lambda>(x, tup). x # tup) (zip c (py_zip cs))"

text \<open>\<open>list(OrderedDict.fromkeys(keys))\<close>: the distinct keys in order of first occurrence.\<close>

definition fromkeys :: "'a list \<Rightarrow> 'a list" where
  "fromkeys keys = fold (\<lambda>k acc. if k \<in> set acc then acc else acc @ [k]) keys []"

text \<open>The generator \<open>(tafra[col] for col in cols)\<close>, consumed to its end.\<close>

fun getitems :: "tafra \<Rightarrow> string list \<Rightarrow> error + ndarray list" where
  "getitems t [] = Inr []"
| "getitems t (col # rest) =
     (case getitem t col of
        Inl e \<Rightarrow> Inl e
      | Inr a \<Rightarrow> (case getitems t rest of Inl e \<Rightarrow> Inl e | Inr as \<Rightarrow> Inr (a # as)))"

definition unique_groups :: "agg_method \<Rightarrow> tafra \<Rightarrow> error + val list list" where
  "unique_groups m t =
     (case getitems t (group_by_cols m) of
        Inl e \<Rightarrow> Inl e
      | Inr as \<Rightarrow> Inr (fromkeys (py_zip (map elems as))))"

definition result_factory ::
  "agg_method \<Rightarrow> (string \<Rightarrow> string \<Rightarrow> error + ndarray) \<Rightarrow> error + (string \<times> ndarray) list" where
  "result_factory m fn =
     dict_comp fn
       (map (\<lambda>col. (col, col)) (group_by_cols m)
        @ map (\<lambda>(rename, f, col). (rename, col)) (aggregation m)) []"

subsection \<open>GroupBy\<close>

text \<open>The loop over \<open>zip(u, self._group_by_cols)\<close> for the group of index \<open>i\<close>.\<close>

fun GroupBy_keys ::
  "tafra \<Rightarrow> nat \<Rightarrow> (val \<times> string) list \<Rightarrow> bool list \<Rightarrow> (string \<times> ndarray) list
     \<Rightarrow> error + bool list \<times> (string \<times> ndarray) list" where
  "GroupBy_keys t i [] w res = Inr (w, res)"
| "GroupBy_keys t i ((v, col) # rest) w res =
     (case getitem t col of
        Inl e \<Rightarrow> Inl e
      | Inr a \<Rightarrow>
          (case mask_and w (eq_scalar a v) of
             Inl e \<Rightarrow> Inl e
           | Inr w' \<Rightarrow>
               (case map_of res col of
                  None \<Rightarrow> Inl (KeyError col)
                | Some r \<Rightarrow>
                    (case array_set r i v of
                       Inl e \<Rightarrow> Inl e
                     | Inr r' \<Rightarrow> GroupBy_keys t i rest w' (AList.update col r' res)))))"

text \<open>The loop over \<open>self._aggregation.items()\<close> for the group of index \<open>i\<close>.\<close>

fun GroupBy_aggs ::
  "tafra \<Rightarrow> nat \<Rightarrow> (string \<times> reduction \<times> string) list \<Rightarrow> bool list
     \<Rightarrow> (string \<times> ndarray) list \<Rightarrow> error + (string \<times> ndarray) list" where
  "GroupBy_aggs t i [] w res = Inr res"
| "GroupBy_aggs t i ((rename, fn, col) # rest) w res =
     (case getitem t col of
        Inl e \<Rightarrow> Inl e
      | Inr a \<Rightarrow>
          (case getitem_mask a w of
             Inl e \<Rightarrow> Inl e
           | Inr sub \<Rightarrow>
               (case fn sub of
                  Inl e \<Rightarrow> Inl e
                | Inr v \<Rightarrow>
                    (case map_of res rename of
                       None \<Rightarrow> Inl (KeyError rename)
                     | Some r \<Rightarrow>
                         (case array_set r i v of
                            Inl e \<Rightarrow> Inl e
                          | Inr r' \<Rightarrow> GroupBy_aggs t i rest w (AList.update rename r' res))))))"

text \<open>
  The loop over \<open>enumerate(unique)\<close>.  Besides the result dictionary it returns the
  mask \<open>which_rows\<close> of every group, in order; the source drops each mask at the end of
  its iteration.
\<close>

fun GroupBy_loop ::
  "agg_method \<Rightarrow> tafra \<Rightarrow> (nat \<times> val list) list \<Rightarrow> (string \<times> ndarray) list
     \<Rightarrow> error + (string \<times> ndarray) list \<times> bool list list" where
  "GroupBy_loop m t [] res = Inr (res, [])"
| "GroupBy_loop m t ((i, u) # rest) res =
     (case GroupBy_keys t i (zip u (group_by_cols m)) (replicate (rows t) True) res of
        Inl e \<Rightarrow> Inl e
      | Inr (w, res1) \<Rightarrow>
          (case GroupBy_aggs t i (aggregation m) w res1 of
             Inl e \<Rightarrow> Inl e
           | Inr res2 \<Rightarrow>
               (case GroupBy_loop m t rest res2 of
                  Inl e \<Rightarrow> Inl e
                | Inr (res3, masks) \<Rightarrow> Inr (res3, w # masks))))"

text \<open>\<open>GroupBy.apply\<close> up to the final \<open>Tafra(result)\<close>: the result and the masks.\<close>

definition GroupBy_run ::
  "numpy \<Rightarrow> agg_method \<Rightarrow> tafra \<Rightarrow> error + (string \<times> ndarray) list \<times> bool list list" where
  "GroupBy_run np m t =
     (case AggMethod_validate m t of
        Inl e \<Rightarrow> Inl e
      | Inr u \<Rightarrow>
          (case unique_groups m t of
             Inl e \<Rightarrow> Inl e
           | Inr unique \<Rightarrow>
               (case result_factory m
                       (\<lambda>rename col.
                          case getitem t col of
                            Inl e \<Rightarrow> Inl e
                          | Inr a \<Rightarrow> Inr (np_empty np (length unique) (dtype a))) of
                  Inl e \<Rightarrow> Inl e
                | Inr result \<Rightarrow> GroupBy_loop m t (zip [0..<length unique] unique) result)))"

definition GroupBy_apply :: "numpy \<Rightarrow> agg_method \<Rightarrow> tafra \<Rightarrow> error + tafra" where
  "GroupBy_apply np m t =
     (case GroupBy_run np m t of
        Inl e \<Rightarrow> Inl e
      | Inr (result, masks) \<Rightarrow> Tafra np result [])"

definition group_by ::
  "numpy \<Rightarrow> tafra \<Rightarrow> string list \<Rightarrow> (string \<times> agg_arg) list \<Rightarrow> error + tafra" where
  "group_by np t gb agg =
     (case AggMethod gb agg of Inl e \<Rightarrow> Inl e | Inr m \<Rightarrow> GroupBy_apply np m t)"

subsection \<open>Transform\<close>

fun Transform_keys ::
  "tafra \<Rightarrow> (val \<times> string) list \<Rightarrow> bool list \<Rightarrow> (string \<times> ndarray) list
     \<Rightarrow> error + bool list \<times> (string \<times> ndarray) list" where
  "Transform_keys t [] w res = Inr (w, res)"
| "Transform_keys t ((v, col) # rest) w res =
     (case getitem t col of
        Inl e \<Rightarrow> Inl e
      | Inr a \<Rightarrow>
          (case mask_and w (eq_scalar a v) of
             Inl e \<Rightarrow> Inl e
           | Inr w' \<Rightarrow>
               (case getitem_mask a w' of
                  Inl e \<Rightarrow> Inl e
                | Inr sub \<Rightarrow>
                    (case map_of res col of
                       None \<Rightarrow> Inl (KeyError col)
                     | Some r \<Rightarrow>
                         (case setitem_mask r w' (elems sub) of
                            Inl e \<Rightarrow> Inl e
                          | Inr r' \<Rightarrow> Transform_keys t rest w' (AList.update col r' res))))))"

fun Transform_aggs ::
  "tafra \<Rightarrow> (string \<times> reduction \<times> string) list \<Rightarrow> bool list
     \<Rightarrow> (string \<times> ndarray) list \<Rightarrow> error + (string \<times> ndarray) list" where
  "Transform_aggs t [] w res = Inr res"
| "Transform_aggs t ((rename, fn, col) # rest) w res =
     (case getitem t col of
        Inl e \<Rightarrow> Inl e
      | Inr a \<Rightarrow>
          (case getitem_mask a w of
             Inl e \<Rightarrow> Inl e
           | Inr sub \<Rightarrow>
               (case fn sub of
                  Inl e \<Rightarrow> Inl e
                | Inr v \<Rightarrow>
                    (case map_of res rename of
                       None \<Rightarrow> Inl (KeyError rename)
                     | Some r \<Rightarrow>
                         (case fill_mask r w v of
                            Inl e \<Rightarrow> Inl e
                          | Inr r' \<Rightarrow> Transform_aggs t rest w (AList.update rename r' res))))))"

fun Transform_loop ::
  "agg_method \<Rightarrow> tafra \<Rightarrow> (nat \<times> val list) list \<Rightarrow> (string \<times> ndarray) list
     \<Rightarrow> error + (string \<times> ndarray) list" where
  "Transform_loop m t [] res = Inr res"
| "Transform_loop m t ((i, u) # rest) res =
     (case Transform_keys t (zip u (group_by_cols m)) (replicate (rows t) True) res of
        Inl e \<Rightarrow> Inl e
      | Inr (w, res1) \<Rightarrow>
          (case Transform_aggs t (aggregation m) w res1 of
             Inl e \<Rightarrow> Inl e
           | Inr res2 \<Rightarrow> Transform_loop m t rest res2))"

definition Transform_apply :: "numpy \<Rightarrow> agg_method \<Rightarrow> tafra \<Rightarrow> error + tafra" where
  "Transform_apply np m t =
     (case AggMethod_validate m t of
        Inl e \<Rightarrow> Inl e
      | Inr u \<Rightarrow>
          (case unique_groups m t of
             Inl e \<Rightarrow> Inl e
           | Inr unique \<Rightarrow>
               (case result_factory m
                       (\<lambda>rename col.
                          case getitem t col of
                            Inl e \<Rightarrow> Inl e
                          | Inr a \<Rightarrow> Inr (np_empty np (len a) (dtype a))) of
                  Inl e \<Rightarrow> Inl e
                | Inr result \<Rightarrow>
                    (case Transform_loop m t (zip [0..<length unique] unique) result of
                       Inl e \<Rightarrow> Inl e
                     | Inr result' \<Rightarrow> Tafra np result' []))))"

definition transform ::
  "numpy \<Rightarrow> tafra \<Rightarrow> string list \<Rightarrow> (string \<times> agg_arg) list \<Rightarrow> error + tafra" where
  "transform np t gb agg =
     (case AggMethod gb agg of Inl e \<Rightarrow> Inl e | Inr m \<Rightarrow> Transform_apply np m t)"

subsection \<open>IterateBy\<close>

text \<open>The loop over \<open>zip(u, self._group_by_cols)\<close> of \<open>IterateBy.apply\<close>.\<close>

fun IterateBy_keys :: "tafra \<Rightarrow> (val \<times> string) list \<Rightarrow> bool list \<Rightarrow> error + bool list" where
  "IterateBy_keys t [] w = Inr w"
| "IterateBy_keys t ((v, col) # rest) w =
     (case getitem t col of
        Inl e \<Rightarrow> Inl e
      | Inr a \<Rightarrow>
          (case mask_and w (eq_scalar a v) of
             Inl e \<Rightarrow> Inl e
           | Inr w' \<Rightarrow> IterateBy_keys t rest w'))"

text \<open>
  The generator's loop over \<open>enumerate(unique)\<close>: the pairs it yields and, if an
  exception ends the iteration, that exception.  The dictionary \<open>result\<close> that the
  source builds in each iteration holds fresh \<open>np.empty\<close> arrays and is never read.
\<close>

fun IterateBy_loop ::
  "numpy \<Rightarrow> agg_method \<Rightarrow> tafra \<Rightarrow> (nat \<times> val list) list
     \<Rightarrow> (nat \<times> tafra) list \<times> error option" where
  "IterateBy_loop np m t [] = ([], None)"
| "IterateBy_loop np m t ((i, u) # rest) =
     (case IterateBy_keys t (zip u (group_by_cols m)) (replicate (rows t) True) of
        Inl e \<Rightarrow> ([], Some e)
      | Inr w \<Rightarrow>
          (case index np t w of
             Inl e \<Rightarrow> ([], Some e)
           | Inr sub \<Rightarrow>
               (case IterateBy_loop np m t rest of
                  (ys, r) \<Rightarrow> ((i, sub) # ys, r))))"

definition IterateBy_apply ::
  "numpy \<Rightarrow> agg_method \<Rightarrow> tafra \<Rightarrow> (nat \<times> tafra) list \<times> error option" where
  "IterateBy_apply np m t =
     (case AggMethod_validate m t of
        Inl e \<Rightarrow> ([], Some e)
      | Inr u \<Rightarrow>
          (case unique_groups m t of
             Inl e \<Rightarrow> ([], Some e)
           | Inr unique \<Rightarrow> IterateBy_loop np m t (zip [0..<length unique] unique)))"

definition iterate_by ::
  "numpy \<Rightarrow> tafra \<Rightarrow> string list \<Rightarrow> (nat \<times> tafra) list \<times> error option" where
  "iterate_by np t gb =
     (case AggMethod gb [] of
        Inl e \<Rightarrow> ([], Some e)
      | Inr m \<Rightarrow> IterateBy_apply np m t)"

section \<open>Python's built-in reductions\<close>

definition wrap64 :: "int \<Rightarrow> int" where
  "wrap64 n = (n + 2 ^ 63) mod 2 ^ 64 - 2 ^ 63"

text \<open>
  \<open>sum(a)\<close>: the elements are added to \<open>0\<close> from left to right; the scalars of an
  \<open>int64\<close> array wrap around, and a string cannot be added to a number.
\<close>

fun py_sum_from :: "bool \<Rightarrow> int \<Rightarrow> val list \<Rightarrow> error + val" where
  "py_sum_from wr acc [] = Inr (IntV acc)"
| "py_sum_from wr acc (IntV n # xs) =
     py_sum_from wr (if wr then wrap64 (acc + n) else acc + n) xs"
| "py_sum_from wr acc (BoolV b # xs) = py_sum_from wr (acc + (if b then 1 else 0)) xs"
| "py_sum_from wr acc (StrV s # xs) = Inl TypeError_operand"

definition py_sum :: reduction where
  "py_sum a = py_sum_from (dtype a = ''int64'') 0 (elems a)"


section \<open>The table of the module's own example\<close>

text \<open>A numpy whose conversions keep every element and name the dtype after the tag.\<close>

definition np_id :: numpy where
  "np_id = \<lparr>np_convert = (\<lambda>T v. Some v), np_dtype_of = (\<lambda>T vs. T), np_uninit = (\<lambda>i. IntV 0)\<rparr>"

definition build_tafra_data :: "(string \<times> ndarray) list" where
  "build_tafra_data =
     [(''x'', \<lparr>dtype = ''int64'', elems = map IntV [1, 2, 3, 4, 5, 6]\<rparr>),
      (''y'', \<lparr>dtype = ''object'',
              elems = map StrV [''one'', ''two'', ''one'', ''two'', ''one'', ''two'']\<rparr>),
      (''z'', \<lparr>dtype = ''int64'', elems = map IntV [0, 0, 0, 1, 1, 1]\<rparr>)]"

definition build_tafra :: tafra where
  "build_tafra =
     \<lparr>data = build_tafra_data,
      dtypes = [(''x'', ''int''), (''y'', ''object''), (''z'', ''int'')]\<rparr>"

definition int_array :: "int list \<Rightarrow> ndarray" where
  "int_array xs = \<lparr>dtype = ''int64'', elems = map IntV xs\<rparr>"

text \<open>
  Tables for the examples below: \<open>Tafra({'x': np.array([b'ab', b'cd'])})\<close>, whose dtype
  \<open>|S2\<close> has no entry in \<open>TAFRA_TYPE\<close>, and tables of two and of five rows.
\<close>

definition bytes_tafra :: tafra where
  "bytes_tafra =
     \<lparr>data = [(''x'', \<lparr>dtype = ''|S2'', elems = [StrV ''ab'', StrV ''cd'']\<rparr>)],
      dtypes = [(''x'', ''|S2'')]\<rparr>"

definition two_rows :: tafra where
  "two_rows = \<lparr>data = [(''x'', int_array [1, 2])], dtypes = [(''x'', ''int'')]\<rparr>"

definition five_rows :: tafra where
  "five_rows = \<lparr>data = [(''x'', int_array [0, 1, 2, 3, 4])], dtypes = [(''x'', ''int'')]\<rparr>"

section \<open>Predicates for the grouping proofs\<close>

text \<open>
  Row \<open>r\<close> carries the key values \<open>zs\<close>: what the mask loops of \<open>GroupBy\<close>,
  \<open>Transform\<close> and \<open>IterateBy\<close> compute cell by cell.
\<close>

definition key_match :: "tafra \<Rightarrow> (val \<times> string) list \<Rightarrow> nat \<Rightarrow> bool" where
  "key_match t zs r =
     list_all (\<lambda>(v, col). case map_of (data t) col of None \<Rightarrow> False | Some a \<Rightarrow> elems a ! r = v) zs"






section \<open>Arrays in a store\<close>

text \<open>
  Where a claim depends on which arrays are shared, the arrays live in a store: an
  address is an index into the list of all arrays, and allocation appends.  A \<open>Tafra\<close>
  then holds the addresses of its columns; \<open>deref\<close> reads the table it stands for.
\<close>

type_synonym addr = nat

type_synonym heap = "ndarray list"

record tafra_ref =
  rdata :: "(string \<times> addr) list"
  rdtypes :: "(string \<times> string) list"

definition deref :: "heap \<Rightarrow> tafra_ref \<Rightarrow> tafra" where
  "deref h t = \<lparr>data = map (\<lambda>(c, p). (c, h ! p)) (rdata t), dtypes = rdtypes t\<rparr>"

definition alloc :: "heap \<Rightarrow> ndarray \<Rightarrow> heap \<times> addr" where
  "alloc h a = (h @ [a], length h)"

text \<open>
  The comprehension \<open>{column: value.copy(order=order) for column, value in ...}\<close> of
  \<open>Tafra.copy\<close>: every \<open>ndarray.copy\<close> allocates a new array.
\<close>

fun copy_columns ::
  "heap \<Rightarrow> (string \<times> addr) list \<Rightarrow> (string \<times> addr) list \<Rightarrow> heap \<times> (string \<times> addr) list" where
  "copy_columns h [] acc = (h, acc)"
| "copy_columns h ((column, p) # rest) acc =
     (case alloc h (h ! p) of (h', q) \<Rightarrow> copy_columns h' rest (AList.update column q acc))"

text \<open>
  \<open>update_types\<close> and the constructor on addresses: \<open>astype\<close> returns a new array,
  and the column is rebound to it.
\<close>

fun update_types_ref_loop ::
  "numpy \<Rightarrow> (string \<times> string) list \<Rightarrow> heap \<Rightarrow> (string \<times> addr) list
     \<Rightarrow> error option \<times> heap \<times> (string \<times> addr) list" where
  "update_types_ref_loop np [] h d = (None, h, d)"
| "update_types_ref_loop np ((column, tag) # rest) h d =
     (case map_of d column of
        None \<Rightarrow> (Some (KeyError column), h, d)
      | Some p \<Rightarrow>
          if format_type (dtype (h ! p)) \<noteq> tag
          then (case apply_type np tag (h ! p) of
                  Inl e \<Rightarrow> (Some e, h, d)
                | Inr a' \<Rightarrow>
                    (case alloc h a' of
                       (h', q) \<Rightarrow> update_types_ref_loop np rest h' (AList.update column q d)))
          else update_types_ref_loop np rest h d)"

definition Tafra_ref ::
  "numpy \<Rightarrow> heap \<Rightarrow> (string \<times> addr) list \<Rightarrow> (string \<times> string) list
     \<Rightarrow> error + heap \<times> tafra_ref" where
  "Tafra_ref np h d ds =
     (case post_init_rows None (map (\<lambda>(c, p). (c, h ! p)) d) of
        Inl e \<Rightarrow> Inl e
      | Inr u \<Rightarrow>
          if ds \<noteq> []
          then (case update_types_ref_loop np ds h d of
                  (Some e, h', d') \<Rightarrow> Inl e
                | (None, h', d') \<Rightarrow>
                    Inr (h', \<lparr>rdata = d',
                              rdtypes = dtypes (coalesce_types
                                          (deref h' \<lparr>rdata = d', rdtypes = ds\<rparr>))\<rparr>))
          else Inr (h, \<lparr>rdata = d,
                         rdtypes = dtypes (coalesce_types
                                     (deref h \<lparr>rdata = d, rdtypes = []\<rparr>))\<rparr>))"

definition copy_ref :: "numpy \<Rightarrow> heap \<Rightarrow> tafra_ref \<Rightarrow> error + heap \<times> tafra_ref" where
  "copy_ref np h t =
     (case copy_columns h (rdata t) [] of
        (h1, d) \<Rightarrow> Tafra_ref np h1 d (dict_update [] (rdtypes t)))"

text \<open>\<open>t[item]\<close> for a string: the column's own array.\<close>

definition getitem_ref :: "tafra_ref \<Rightarrow> string \<Rightarrow> error + addr" where
  "getitem_ref t item =
     (case map_of (rdata t) item of None \<Rightarrow> Inl (KeyError item) | Some p \<Rightarrow> Inr p)"

text \<open>
  \<open>a[i] = v\<close> on the array at address \<open>p\<close>; a negative index counts from the end.
\<close>

definition py_index :: "nat \<Rightarrow> int \<Rightarrow> nat option" where
  "py_index n i =
     (let j = (if i < 0 then int n + i else i)
      in if 0 \<le> j \<and> j < int n then Some (nat j) else None)"

definition store :: "heap \<Rightarrow> addr \<Rightarrow> int \<Rightarrow> val \<Rightarrow> error + heap" where
  "store h p i v =
     (case py_index (len (h ! p)) i of
        None \<Rightarrow> Inl IndexError
      | Some k \<Rightarrow> Inr (h[p := (h ! p)\<lparr>elems := (elems (h ! p))[k := v]\<rparr>]))"

definition valid_refs :: "heap \<Rightarrow> tafra_ref \<Rightarrow> bool" where
  "valid_refs h t = list_all (\<lambda>(c, p). p < length h) (rdata t)"

definition fresh_refs :: "nat \<Rightarrow> (string \<times> addr) list \<Rightarrow> bool" where
  "fresh_refs n d = list_all (\<lambda>(c, q). n \<le> q) d"

text \<open>The example table in a store.\<close>

definition example_heap :: heap where
  "example_heap = map snd build_tafra_data"

definition example_ref :: tafra_ref where
  "example_ref = \<lparr>rdata = [(''x'', 0), (''y'', 1), (''z'', 2)], rdtypes = dtypes build_tafra\<rparr>"

definition example_copy :: tafra_ref where
  "example_copy = example_ref\<lparr>rdata := [(''x'', 3), (''y'', 4), (''z'', 5)]\<rparr>"

section \<open>Union\<close>

text \<open>
  Modelled from the spec: \<open>Union(other)\<close>, the \<open>union\<close> that the tests call; the module
  under \<open>src\<close> has no such method (its \<open>update\<close> overwrites columns and requires equal
  row counts).  The spec: identical column-name sets and identical type tags per column are
  required, mismatched name sets and mismatched tags fail with a \<open>TypeError\<close>, row counts
  need not agree, and each result column is the concatenation of both arrays in order.
\<close>

definition tafra_union :: "tafra \<Rightarrow> tafra \<Rightarrow> error + tafra" where
  "tafra_union t other =
     (if set (columns t) \<noteq> set (columns other) then Inl TypeError_columns
      else if \<exists>c \<in> set (columns t). map_of (dtypes t) c \<noteq> map_of (dtypes other) c
      then Inl TypeError_dtypes
      else Inr (t\<lparr>data :=
                  map (\<lambda>(c, a). (c, case map_of (data other) c of
                                       None \<Rightarrow> a
                                     | Some b \<Rightarrow> a\<lparr>elems := elems a @ elems b\<rparr>))
                      (data t)\<rparr>))"

section \<open>Cross join\<close>

text \<open>
  Modelled from the spec: \<open>CrossJoin(left, right, select?)\<close>, the \<open>cross_join\<close> that the
  tests call; the module under \<open>src\<close> has no join.  The spec: the result has
  \<open>left.rows * right.rows\<close> rows, row \<open>i * right.rows + j\<close> pairs left row \<open>i\<close> with right
  row \<open>j\<close>, it contains the requested (or all) columns from both sides, and a requested
  column that does not exist on either side fails with \<open>IndexError\<close>.  So every left
  column repeats each cell \<open>right.rows\<close> times and every right column is laid out
  \<open>left.rows\<close> times; on a name that both sides have, the right column is stored last.
\<close>

definition repeat_each :: "nat \<Rightarrow> 'a list \<Rightarrow> 'a list" where
  "repeat_each n xs = concat (map (replicate n) xs)"

definition tile :: "nat \<Rightarrow> 'a list \<Rightarrow> 'a list" where
  "tile m ys = concat (replicate m ys)"





section \<open>The row-count invariant\<close>

lemma all_len_consistent: "all_len n (data t) \<Longrightarrow> consistent t"
  by (cases "data t") (auto simp: all_len_def consistent_def rows_def)

lemma consistent_all_len: "consistent t \<Longrightarrow> all_len (rows t) (data t)"
  by (simp add: all_len_def consistent_def)

lemma all_len_update:
  "all_len n d \<Longrightarrow> len a = n \<Longrightarrow> all_len n (AList.update k a d)"
  by (induction d) (auto simp: all_len_def)

lemma all_len_delete: "all_len n d \<Longrightarrow> all_len n (AList.delete k d)"
  by (induction d) (auto simp: all_len_def)

lemma all_len_map_of: "all_len n d \<Longrightarrow> map_of d k = Some a \<Longrightarrow> len a = n"
  by (induction d) (auto simp: all_len_def split: if_splits)

lemma post_init_rows_Some:
  "post_init_rows (Some n) d = (if all_len n d then Inr () else Inl ValueError_row_counts)"
  by (induction d) (auto simp: all_len_def)

lemma post_init_rows_None:
  "post_init_rows None d =
     (case d of [] \<Rightarrow> Inr ()
      | (c, a) # rest \<Rightarrow> if all_len (len a) rest then Inr () else Inl ValueError_row_counts)"
  by (cases d) (auto simp: post_init_rows_Some)

lemma post_init_rows_ok: "post_init_rows None d = Inr u \<Longrightarrow> \<exists>n. all_len n d"
  by (cases d) (auto simp: post_init_rows_Some all_len_def split: if_splits)

lemma post_init_rows_disagree:
  assumes "(c1, a1) \<in> set d" "(c2, a2) \<in> set d" "len a1 \<noteq> len a2"
  shows "post_init_rows None d = Inl ValueError_row_counts"
proof (cases d)
  case Nil
  with assms show ?thesis by simp
next
  case (Cons p rest)
  obtain c a where p: "p = (c, a)" by (cases p)
  have "\<not> all_len (len a) rest"
  proof
    assume h: "all_len (len a) rest"
    then have "\<forall>(c', a') \<in> set d. len a' = len a"
      using Cons p by (auto simp: all_len_def list_all_iff)
    then have "len a1 = len a" "len a2 = len a"
      using assms(1,2) by auto
    with assms(3) show False by simp
  qed
  then show ?thesis using Cons p by (simp add: post_init_rows_Some)
qed

lemma convert_all_length: "convert_all f xs = Some ys \<Longrightarrow> length ys = length xs"
  by (induction xs arbitrary: ys) (auto split: option.splits)

lemma apply_type_len: "apply_type np tag a = Inr a' \<Longrightarrow> len a' = len a"
  by (auto simp: apply_type_def astype_def len_def convert_all_length split: if_splits option.splits)

lemma update_types_loop_all_len:
  "all_len n d \<Longrightarrow> update_types_loop np ds d = (r, d') \<Longrightarrow> all_len n d'"
proof (induction np ds d rule: update_types_loop.induct)
  case (1 np d)
  then show ?case by simp
next
  case (2 np column tag rest d)
  then show ?case
    by (auto split: option.splits if_splits sum.splits
             simp: all_len_update all_len_map_of apply_type_len)
qed

lemma update_types_all_len:
  "all_len n (data t) \<Longrightarrow> update_types np t arg = (r, t') \<Longrightarrow> all_len n (data t')"
  by (auto simp: update_types_def split: option.splits sum.splits prod.splits
           dest: update_types_loop_all_len)

lemma coalesce_types_data [simp]: "data (coalesce_types t) = data t"
  by (simp add: coalesce_types_def)

lemma Tafra_all_len:
  assumes "Tafra np d ds = Inr t"
  shows "\<exists>n. all_len n (data t)"
proof -
  let ?t0 = "\<lparr>data = d, dtypes = ds\<rparr>"
  from assms obtain u where "post_init_rows None d = Inr u"
    by (auto simp: Tafra_def post_init_def split: sum.splits)
  then obtain n where n: "all_len n (data ?t0)"
    using post_init_rows_ok by fastforce
  show ?thesis
  proof (cases "ds = []")
    case True
    with assms n show ?thesis
      by (auto simp: Tafra_def post_init_def split: sum.splits)
  next
    case False
    with assms obtain t' where "update_types np ?t0 None = (None, t')" "t = coalesce_types t'"
      by (auto simp: Tafra_def post_init_def split: sum.splits prod.splits option.splits)
    then have "all_len n (data t)"
      using update_types_all_len [OF n, of np None None t'] by simp
    then show ?thesis ..
  qed
qed

lemma Tafra_consistent: "Tafra np d ds = Inr t \<Longrightarrow> consistent t"
  using Tafra_all_len all_len_consistent by blast

lemma Tafra_disagree:
  "(c1, a1) \<in> set d \<Longrightarrow> (c2, a2) \<in> set d \<Longrightarrow> len a1 \<noteq> len a2 \<Longrightarrow>
   Tafra np d ds = Inl ValueError_row_counts"
  by (simp add: Tafra_def post_init_def post_init_rows_disagree)

lemma prod_list_squeeze: "prod_list (squeeze shp) = prod_list shp"
  by (induction shp) (auto simp: squeeze_def)

lemma length_1_prod: "length xs = Suc 0 \<Longrightarrow> prod_list xs = hd xs"
  by (cases xs) auto

lemma Tafra_validate_len:
  "nd_ok v \<Longrightarrow> Tafra_validate t v = Inr a \<Longrightarrow> len a = rows t"
  using prod_list_squeeze [of "nd_shape v"]
  by (auto simp: Tafra_validate_def nd_ok_def len_def Let_def length_1_prod
           split: if_splits sum.splits list.splits)

lemma setitem_consistent:
  "consistent t \<Longrightarrow> nd_ok v \<Longrightarrow> setitem t item v = (r, t') \<Longrightarrow> consistent t'"
  by (auto simp: setitem_def split: sum.splits
           intro!: all_len_consistent [of "rows t"] all_len_update
           dest: consistent_all_len Tafra_validate_len)

lemma delete_consistent: "consistent t \<Longrightarrow> consistent (delete t column)"
  by (auto simp: delete_def intro!: all_len_consistent [of "rows t"] all_len_delete
           dest: consistent_all_len)

lemma update_types_consistent:
  "consistent t \<Longrightarrow> update_types np t arg = (r, t') \<Longrightarrow> consistent t'"
  by (meson all_len_consistent consistent_all_len update_types_all_len)

lemma update_loop_all_len:
  "all_len n d \<Longrightarrow> update_loop n other d = (r, d') \<Longrightarrow> all_len n d'"
  by (induction n other d rule: update_loop.induct)
     (auto split: if_splits simp: all_len_update)

lemma update_consistent:
  assumes "consistent t" "update np t other = (r, t')"
  shows "consistent t'"
proof -
  obtain r1 d1 where l: "update_loop (rows t) (data other) (data t) = (r1, d1)"
    by (cases "update_loop (rows t) (data other) (data t)")
  have d1: "all_len (rows t) d1"
    using update_loop_all_len [OF consistent_all_len [OF assms(1)] l] .
  show ?thesis
  proof (cases r1)
    case (Some e)
    with assms(2) l have "t' = t\<lparr>data := d1\<rparr>" by (simp add: update_def)
    with d1 show ?thesis by (auto intro: all_len_consistent)
  next
    case None
    with assms(2) l have "update_types np (t\<lparr>data := d1\<rparr>) (Some (dtypes other)) = (r, t')"
      by (simp add: update_def)
    moreover have "all_len (rows t) (data (t\<lparr>data := d1\<rparr>))" using d1 by simp
    ultimately show ?thesis
      using update_types_all_len all_len_consistent by blast
  qed
qed

text \<open>
  Claim C1.  A constructed \<open>Tafra\<close> has columns of one length, and \<open>rows\<close> is that
  length; a \<open>Tafra\<close> without columns has \<open>rows = 0\<close>.  The constructor fails with the
  row-count \<open>ValueError\<close> as soon as two of the given arrays differ in length, and
  assigning a column whose length (after the squeeze of \<open>_validate\<close>) differs from
  \<open>rows\<close> fails with the row-count \<open>ValueError\<close> of \<open>_validate\<close>, leaving the table
  as it was.  Assignment, \<open>update\<close>, \<open>update_types\<close> and \<open>delete\<close> keep the invariant,
  also when they raise.
\<close>

theorem C1_row_count_invariant:
  "(Tafra np d ds = Inr t \<longrightarrow> (\<forall>(c, a) \<in> set (data t). len a = rows t))
   \<and> (data e = [] \<longrightarrow> rows e = 0)
   \<and> ((c1, a1) \<in> set d' \<and> (c2, a2) \<in> set d' \<and> len a1 \<noteq> len a2
        \<longrightarrow> Tafra np d' ds' = Inl ValueError_row_counts)
   \<and> ((nd_shape v = [n] \<or> (length (nd_shape v) > 1 \<and> squeeze (nd_shape v) = [n]))
          \<and> n \<noteq> rows s
        \<longrightarrow> setitem s item v = (Some (ValueError_assigned_rows (rows s) n), s))
   \<and> (consistent s \<and> nd_ok w \<longrightarrow> consistent (snd (setitem s item w)))
   \<and> (consistent s \<longrightarrow>
         consistent (snd (update np s other))
         \<and> consistent (snd (update_types np s arg))
         \<and> consistent (delete s column))"
proof -
  have 1: "Tafra np d ds = Inr t \<longrightarrow> (\<forall>(c, a) \<in> set (data t). len a = rows t)"
    using Tafra_consistent [of np d ds t]
    by (auto simp: consistent_def list_all_iff)
  have 2: "data e = [] \<longrightarrow> rows e = 0"
    by (simp add: rows_def)
  have 3: "(c1, a1) \<in> set d' \<and> (c2, a2) \<in> set d' \<and> len a1 \<noteq> len a2
        \<longrightarrow> Tafra np d' ds' = Inl ValueError_row_counts"
    using Tafra_disagree by blast
  have 4: "(nd_shape v = [n] \<or> (length (nd_shape v) > 1 \<and> squeeze (nd_shape v) = [n]))
          \<and> n \<noteq> rows s
        \<longrightarrow> setitem s item v = (Some (ValueError_assigned_rows (rows s) n), s)"
    by (auto simp: setitem_def Tafra_validate_def)
  have 5: "consistent s \<and> nd_ok w \<longrightarrow> consistent (snd (setitem s item w))"
    using setitem_consistent [of s w item] by (cases "setitem s item w") auto
  have 6: "consistent s \<longrightarrow> consistent (snd (update np s other))"
    using update_consistent [of s np other] by (cases "update np s other") auto
  have 7: "consistent s \<longrightarrow> consistent (snd (update_types np s arg))"
    using update_types_consistent [of s np arg] by (cases "update_types np s arg") auto
  have 8: "consistent s \<longrightarrow> consistent (delete s column)"
    using delete_consistent by blast
  from 1 2 3 4 5 6 7 8 show ?thesis by blast
qed

theorem C1_row_count_invariant_witness:
  "Tafra np_id build_tafra_data [] = Inr build_tafra
   \<and> map (\<lambda>(c, a). len a) (data build_tafra) = [6, 6, 6]
   \<and> rows build_tafra = 6
   \<and> data \<lparr>data = [], dtypes = []\<rparr> = [] \<and> rows \<lparr>data = [], dtypes = []\<rparr> = 0
   \<and> len (int_array [1, 2]) \<noteq> len (int_array [3, 4, 5])
   \<and> Tafra np_id [(''x'', int_array [1, 2]), (''y'', int_array [3, 4, 5])] []
       = Inl ValueError_row_counts
   \<and> setitem build_tafra ''x'' \<lparr>nd_dtype = ''int64'', nd_shape = [5], nd_flat = map IntV [0, 1, 2, 3, 4]\<rparr>
       = (Some (ValueError_assigned_rows 6 5), build_tafra)
   \<and> consistent build_tafra
   \<and> nd_ok \<lparr>nd_dtype = ''int64'', nd_shape = [6, 1], nd_flat = map IntV [0, 1, 2, 3, 4, 5]\<rparr>
   \<and> fst (setitem build_tafra ''x''
             \<lparr>nd_dtype = ''int64'', nd_shape = [6, 1], nd_flat = map IntV [0, 1, 2, 3, 4, 5]\<rparr>) = None
   \<and> consistent (snd (setitem build_tafra ''x''
             \<lparr>nd_dtype = ''int64'', nd_shape = [6, 1], nd_flat = map IntV [0, 1, 2, 3, 4, 5]\<rparr>))
   \<and> consistent (snd (update np_id build_tafra build_tafra))
   \<and> consistent (snd (update_types np_id build_tafra (Some [(''x'', ''float'')])))
   \<and> consistent (delete build_tafra ''y'')"
proof -
  let ?v = "\<lparr>nd_dtype = ''int64'', nd_shape = [5], nd_flat = map IntV [0, 1, 2, 3, 4]\<rparr>"
  let ?w = "\<lparr>nd_dtype = ''int64'', nd_shape = [6, 1], nd_flat = map IntV [0, 1, 2, 3, 4, 5]\<rparr>"
  let ?d = "[(''x'', int_array [1, 2]), (''y'', int_array [3, 4, 5])]"
  have h1: "Tafra np_id build_tafra_data [] = Inr build_tafra" by code_simp
  have h2: "data \<lparr>data = [], dtypes = []\<rparr> = []" by simp
  have h3: "(''x'', int_array [1, 2]) \<in> set ?d \<and> (''y'', int_array [3, 4, 5]) \<in> set ?d
            \<and> len (int_array [1, 2]) \<noteq> len (int_array [3, 4, 5])"
    by (simp add: len_def int_array_def)
  have h4: "(nd_shape ?v = [5] \<or> (length (nd_shape ?v) > 1 \<and> squeeze (nd_shape ?v) = [5]))
            \<and> 5 \<noteq> rows build_tafra"
    by (simp add: rows_def build_tafra_def build_tafra_data_def len_def)
  have h5: "consistent build_tafra \<and> nd_ok ?w" by code_simp
  have h6: "rows build_tafra = 6" by code_simp
  have h7: "fst (setitem build_tafra ''x'' ?w) = None" by code_simp
  have h8: "map (\<lambda>(c, a). len a) (data build_tafra) = [6, 6, 6]" by code_simp
  from C1_row_count_invariant
         [of np_id build_tafra_data "[]" build_tafra "\<lparr>data = [], dtypes = []\<rparr>"
             "''x''" "int_array [1, 2]" ?d "''y''" "int_array [3, 4, 5]" "[]"
             ?v 5 build_tafra "''x''" ?w build_tafra "Some [(''x'', ''float'')]" "''y''"]
       h1 h2 h3 h4 h5 h6 h7 h8
  show ?thesis by simp
qed

section \<open>The module's example: group_by and iterate_by on y and z\<close>

text \<open>
  Claim C3, as the code has it.  \<open>group_by(['y', 'z'], {'x': sum})\<close> on the example table
  returns four rows, one per group \<open>(one, 0)\<close>, \<open>(two, 0)\<close>, \<open>(two, 1)\<close>, \<open>(one, 1)\<close> in
  order of first occurrence, and the column \<open>x\<close> holds the sums \<open>4, 2, 10, 5\<close> of the
  groups' rows \<open>{0, 2}\<close>, \<open>{1}\<close>, \<open>{3, 5}\<close>, \<open>{4}\<close>.
\<close>

theorem C3_group_by_sums:
  "group_by np build_tafra [''y'', ''z''] [(''x'', Fn py_sum)] =
     Inr \<lparr>data =
            [(''y'', \<lparr>dtype = ''object'',
                      elems = [StrV ''one'', StrV ''two'', StrV ''two'', StrV ''one'']\<rparr>),
             (''z'', \<lparr>dtype = ''int64'', elems = [IntV 0, IntV 0, IntV 1, IntV 1]\<rparr>),
             (''x'', \<lparr>dtype = ''int64'', elems = [IntV 4, IntV 2, IntV 10, IntV 5]\<rparr>)],
          dtypes = [(''y'', ''object''), (''z'', ''int''), (''x'', ''int'')]\<rparr>
   \<and> map_sum id rows (group_by np build_tafra [''y'', ''z''] [(''x'', Fn py_sum)]) = Inr 4"
  by code_simp

text \<open>The sums are not \<open>3, 2, 9, 5\<close>.\<close>

theorem C3_group_by_counterexample:
  "\<not> (case group_by np_id build_tafra [''y'', ''z''] [(''x'', Fn py_sum)] of
        Inl e \<Rightarrow> False
      | Inr r \<Rightarrow> rows r = 4
                 \<and> map_option elems (map_of (data r) ''x'') = Some (map IntV [3, 2, 9, 5]))"
  by code_simp

text \<open>
  Claim C4, as the code has it.  \<open>iterate_by(['y', 'z'])\<close> on the example table yields
  four pairs of a group index and a sub-table, in order of first occurrence of the keys
  \<open>(one, 0)\<close>, \<open>(two, 0)\<close>, \<open>(two, 1)\<close>, \<open>(one, 1)\<close>; their masks select the rows
  \<open>{0, 2}\<close>, \<open>{1}\<close>, \<open>{3, 5}\<close>, \<open>{4}\<close>.
\<close>

theorem C4_iterate_by_groups:
  "iterate_by np build_tafra [''y'', ''z''] =
     ([(0, \<lparr>data =
              [(''x'', \<lparr>dtype = ''int64'', elems = [IntV 1, IntV 3]\<rparr>),
               (''y'', \<lparr>dtype = ''object'', elems = [StrV ''one'', StrV ''one'']\<rparr>),
               (''z'', \<lparr>dtype = ''int64'', elems = [IntV 0, IntV 0]\<rparr>)],
             dtypes = [(''x'', ''int''), (''y'', ''object''), (''z'', ''int'')]\<rparr>),
       (1, \<lparr>data =
              [(''x'', \<lparr>dtype = ''int64'', elems = [IntV 2]\<rparr>),
               (''y'', \<lparr>dtype = ''object'', elems = [StrV ''two'']\<rparr>),
               (''z'', \<lparr>dtype = ''int64'', elems = [IntV 0]\<rparr>)],
             dtypes = [(''x'', ''int''), (''y'', ''object''), (''z'', ''int'')]\<rparr>),
       (2, \<lparr>data =
              [(''x'', \<lparr>dtype = ''int64'', elems = [IntV 4, IntV 6]\<rparr>),
               (''y'', \<lparr>dtype = ''object'', elems = [StrV ''two'', StrV ''two'']\<rparr>),
               (''z'', \<lparr>dtype = ''int64'', elems = [IntV 1, IntV 1]\<rparr>)],
             dtypes = [(''x'', ''int''), (''y'', ''object''), (''z'', ''int'')]\<rparr>),
       (3, \<lparr>data =
              [(''x'', \<lparr>dtype = ''int64'', elems = [IntV 5]\<rparr>),
               (''y'', \<lparr>dtype = ''object'', elems = [StrV ''one'']\<rparr>),
               (''z'', \<lparr>dtype = ''int64'', elems = [IntV 1]\<rparr>)],
             dtypes = [(''x'', ''int''), (''y'', ''object''), (''z'', ''int'')]\<rparr>)],
      None)
   \<and> length (fst (iterate_by np build_tafra [''y'', ''z''])) = 4
   \<and> unique_groups \<lparr>group_by_cols = [''y'', ''z''], aggregation = []\<rparr> build_tafra =
       Inr [[StrV ''one'', IntV 0], [StrV ''two'', IntV 0],
            [StrV ''two'', IntV 1], [StrV ''one'', IntV 1]]
   \<and> map (\<lambda>u. IterateBy_keys build_tafra (zip u [''y'', ''z'']) (replicate (rows build_tafra) True))
         [[StrV ''one'', IntV 0], [StrV ''two'', IntV 0],
          [StrV ''two'', IntV 1], [StrV ''one'', IntV 1]] =
       [Inr [True, False, True, False, False, False],
        Inr [False, True, False, False, False, False],
        Inr [False, False, False, True, False, True],
        Inr [False, False, False, False, True, False]]"
  by code_simp

text \<open>It does not yield three groups.\<close>

theorem C4_iterate_by_counterexample:
  "\<not> length (fst (iterate_by np_id build_tafra [''y'', ''z''])) = 3"
  by code_simp

section \<open>Grouping by no column\<close>

text \<open>
  Claim C10.  For every table, whatever its row count, \<open>zip()\<close> of no column yields no
  key, so \<open>unique_groups\<close> is empty: \<open>group_by([], {})\<close> returns the table without
  columns, whose \<open>rows\<close> is 0, and \<open>iterate_by([])\<close> yields nothing.
\<close>

theorem C10_empty_group_by:
  "unique_groups \<lparr>group_by_cols = [], aggregation = a\<rparr> t = Inr []
   \<and> group_by np t [] [] = Inr \<lparr>data = [], dtypes = []\<rparr>
   \<and> map_sum id rows (group_by np t [] []) = Inr 0
   \<and> iterate_by np t [] = ([], None)"
  by (simp add: unique_groups_def fromkeys_def group_by_def GroupBy_apply_def GroupBy_run_def
      AggMethod_def AggMethod_validate_def result_factory_def Tafra_def post_init_def
      coalesce_types_def rows_def iterate_by_def IterateBy_apply_def)

section \<open>What a failed operation leaves behind\<close>

lemma update_types_loop_error:
  "update_types_loop np ds d = (Some e, d') \<Longrightarrow> e = ValueError_numpy \<or> (\<exists>k. e = KeyError k)"
  by (induction np ds d rule: update_types_loop.induct)
     (auto simp: apply_type_def astype_def split: option.splits if_splits sum.splits)

lemma update_types_validation_failure:
  "update_types np t arg = (Some (ValueError_dtypes msg), t') \<Longrightarrow> t' = t"
  by (auto simp: update_types_def split: option.splits sum.splits prod.splits
           dest: update_types_loop_error)

lemma update_loop_all_len_other:
  "all_len k other \<Longrightarrow> update_loop n other d = (Some e, d') \<Longrightarrow> d' = d"
proof (cases other)
  case Nil
  then show "update_loop n other d = (Some e, d') \<Longrightarrow> d' = d" by simp
next
  case (Cons p rest)
  obtain c a where p: "p = (c, a)" by (cases p)
  assume k: "all_len k other" and u: "update_loop n other d = (Some e, d')"
  have ok: "all_len n rest \<Longrightarrow> update_loop n rest d2 = (Some e, d') \<Longrightarrow> False" for d2
    by (induction rest arbitrary: d2) (auto simp: all_len_def split: if_splits)
  show "d' = d"
  proof (cases "len a = n")
    case True
    with k Cons p have "all_len n rest" by (auto simp: all_len_def)
    with u Cons p True ok show ?thesis by auto
  next
    case False
    with u Cons p show ?thesis by simp
  qed
qed

lemma validate_types_error:
  "validate_types dts = Inl e \<Longrightarrow> \<exists>msg. e = ValueError_dtypes msg"
  by (auto simp: validate_types_def Let_def split: prod.splits if_splits)

lemma update_row_count_failure:
  assumes "consistent other" "update np t other = (Some (ValueError_other_rows m n), t')"
  shows "t' = t"
proof -
  obtain r1 d1 where l: "update_loop (rows t) (data other) (data t) = (r1, d1)"
    by (cases "update_loop (rows t) (data other) (data t)")
  show ?thesis
  proof (cases r1)
    case None
    with l assms(2)
    have "update_types np (t\<lparr>data := d1\<rparr>) (Some (dtypes other))
            = (Some (ValueError_other_rows m n), t')"
      by (simp add: update_def)
    then show ?thesis
      by (auto simp: update_types_def split: option.splits sum.splits prod.splits
               dest: update_types_loop_error validate_types_error)
  next
    case (Some e)
    with l consistent_all_len [OF assms(1)] have "d1 = data t"
      using update_loop_all_len_other by blast
    with Some l assms(2) show ?thesis by (simp add: update_def)
  qed
qed

lemma setitem_failure: "setitem t item v = (Some e, t') \<Longrightarrow> t' = t"
  by (auto simp: setitem_def split: sum.splits)

text \<open>
  Claim C5, as the code has it.  A failed column assignment leaves the table as it was;
  so does \<open>update_types\<close> when it fails in the validation of the tags, and \<open>update\<close>
  when it fails in the row-count check against a consistent table.
\<close>

theorem C5_failed_validation_keeps_table:
  "(setitem t item v = (Some e, t') \<longrightarrow> t' = t)
   \<and> (update_types np t arg = (Some (ValueError_dtypes msg), t1) \<longrightarrow> t1 = t)
   \<and> (consistent other \<and> update np t other = (Some (ValueError_other_rows m n), t2)
        \<longrightarrow> t2 = t)"
  using setitem_failure update_types_validation_failure update_row_count_failure
  by blast

theorem C5_failed_validation_keeps_table_witness:
  "setitem build_tafra ''x''
       \<lparr>nd_dtype = ''int64'', nd_shape = [5], nd_flat = map IntV [0, 1, 2, 3, 4]\<rparr>
     = (Some (ValueError_assigned_rows 6 5), build_tafra)
   \<and> update_types np_id build_tafra (Some [(''x'', ''flot''), (''y'', ''st'')])
     = (Some (ValueError_dtypes [(''flot'', ''x''), (''st'', ''y'')]), build_tafra)
   \<and> consistent five_rows
   \<and> update np_id build_tafra five_rows = (Some (ValueError_other_rows 6 5), build_tafra)"
proof -
  let ?v = "\<lparr>nd_dtype = ''int64'', nd_shape = [5], nd_flat = map IntV [0, 1, 2, 3, 4]\<rparr>"
  let ?ds = "Some [(''x'', ''flot''), (''y'', ''st'')]"
  have a: "setitem build_tafra ''x'' ?v
             = (Some (ValueError_assigned_rows 6 5), snd (setitem build_tafra ''x'' ?v))"
    by code_simp
  have b: "update_types np_id build_tafra ?ds
             = (Some (ValueError_dtypes [(''flot'', ''x''), (''st'', ''y'')]),
                snd (update_types np_id build_tafra ?ds))"
    by code_simp
  have c: "consistent five_rows" by code_simp
  have d: "update np_id build_tafra five_rows
             = (Some (ValueError_other_rows 6 5), snd (update np_id build_tafra five_rows))"
    by code_simp
  from C5_failed_validation_keeps_table
         [of build_tafra "''x''" ?v "ValueError_assigned_rows 6 5"
             "snd (setitem build_tafra ''x'' ?v)"
             np_id ?ds "[(''flot'', ''x''), (''st'', ''y'')]"
             "snd (update_types np_id build_tafra ?ds)"
             five_rows 6 5 "snd (update np_id build_tafra five_rows)"]
       a b c d
  show ?thesis by simp
qed

text \<open>
  Failures raised after the first mutation leave it in place.  \<open>update\<close> overwrites the
  columns before it validates the tags of the other table, and \<open>update_types\<close> updates
  \<open>_dtypes\<close> before it looks the columns up.
\<close>

theorem C5_partial_mutation_counterexample:
  "Tafra np_id (data two_rows) [] = Inr two_rows
   \<and> Tafra np_id (data bytes_tafra) [] = Inr bytes_tafra
   \<and> update np_id two_rows bytes_tafra
       = (Some (ValueError_dtypes [(''|S2'', ''x'')]), two_rows\<lparr>data := data bytes_tafra\<rparr>)
   \<and> two_rows\<lparr>data := data bytes_tafra\<rparr> \<noteq> two_rows
   \<and> update_types np_id build_tafra (Some [(''q'', ''int'')])
       = (Some (KeyError ''q''),
          build_tafra\<lparr>dtypes := dtypes build_tafra @ [(''q'', ''int'')]\<rparr>)
   \<and> build_tafra\<lparr>dtypes := dtypes build_tafra @ [(''q'', ''int'')]\<rparr> \<noteq> build_tafra"
  by code_simp

section \<open>The groups partition the rows\<close>

lemma key_match_Nil [simp]: "key_match t [] r"
  by (simp add: key_match_def)

lemma key_match_Cons:
  "map_of (data t) col = Some a \<Longrightarrow>
   key_match t ((v, col) # zs) r = (elems a ! r = v \<and> key_match t zs r)"
  by (simp add: key_match_def)

lemma mask_and_Inr:
  assumes "mask_and w e = Inr w'"
  shows "length e = length w" "length w' = length w"
        "\<And>r. r < length w \<Longrightarrow> w' ! r = (w ! r \<and> e ! r)"
  using assms by (auto simp: mask_and_def split: if_splits)

lemma getitem_Inr: "getitem t col = Inr a \<Longrightarrow> map_of (data t) col = Some a"
  by (auto simp: getitem_def split: option.splits)

lemma keys_step:
  assumes a: "map_of (data t) col = Some a" and n: "all_len n (data t)"
    and w: "length w = n" and m: "mask_and w (eq_scalar a v) = Inr w1"
  shows "length w1 = n"
    and "map (\<lambda>r. w1 ! r \<and> key_match t zs r) [0..<n]
         = map (\<lambda>r. w ! r \<and> key_match t ((v, col) # zs) r) [0..<n]"
proof -
  have la: "length (elems a) = n"
    using all_len_map_of [OF n a] by (simp add: len_def)
  show "length w1 = n" using mask_and_Inr(2) [OF m] w by simp
  have "w1 ! r = (w ! r \<and> elems a ! r = v)" if "r < n" for r
    using mask_and_Inr(3) [OF m, of r] that w la by (simp add: eq_scalar_def)
  then show "map (\<lambda>r. w1 ! r \<and> key_match t zs r) [0..<n]
         = map (\<lambda>r. w ! r \<and> key_match t ((v, col) # zs) r) [0..<n]"
    by (auto simp: key_match_Cons [OF a])
qed


lemma IterateBy_keys_mask:
  "IterateBy_keys t zs w = Inr w' \<Longrightarrow> all_len n (data t) \<Longrightarrow> length w = n \<Longrightarrow>
   w' = map (\<lambda>r. w ! r \<and> key_match t zs r) [0..<n]"
proof (induction t zs w rule: IterateBy_keys.induct)
  case (1 t w)
  then show ?case by (auto intro: nth_equalityI)
next
  case (2 t v col rest w)
  from "2.prems"(1) obtain a w1 where
    a: "getitem t col = Inr a" and m: "mask_and w (eq_scalar a v) = Inr w1"
    and rec: "IterateBy_keys t rest w1 = Inr w'"
    by (auto split: sum.splits option.splits)
  note st = keys_step [OF getitem_Inr [OF a] "2.prems"(2,3) m]
  from "2.IH" [OF a m rec "2.prems"(2) st(1)] st(2) [of rest]
  show ?case by simp
qed














section \<open>Transform keeps the rows and the group-by columns\<close>









lemma length_mask_put [simp]: "length (mask_put xs bs vs) = length xs"
  by (induction xs bs vs rule: mask_put.induct) (auto split: list.splits)












lemma in_keys_map_of: "k \<in> fst ` set d \<Longrightarrow> \<exists>v. map_of d k = Some v"
  by (cases "map_of d k") (auto simp: map_of_eq_None_iff)







lemma first_missing_NoneD: "first_missing cols xs = None \<Longrightarrow> set xs \<subseteq> set cols"
  by (induction xs) (auto split: if_splits)





lemma len_np_empty [simp]: "len (np_empty np k dt) = k"
  by (simp add: np_empty_def len_def)


lemma ndarray_eqI:
  "dtype (r :: ndarray) = dtype a \<Longrightarrow> elems r = elems a \<Longrightarrow> r = a"
  by simp









section \<open>Copies are independent, string indexing aliases\<close>

lemma fresh_refs_update:
  "fresh_refs n d \<Longrightarrow> n \<le> q \<Longrightarrow> fresh_refs n (AList.update k q d)"
  by (induction d) (auto simp: fresh_refs_def)

lemma fresh_refs_mono: "fresh_refs n d \<Longrightarrow> m \<le> n \<Longrightarrow> fresh_refs m d"
  by (auto simp: fresh_refs_def list_all_iff)

lemma copy_columns_fresh:
  "copy_columns h d acc = (h1, d1) \<Longrightarrow> fresh_refs n acc \<Longrightarrow> n \<le> length h \<Longrightarrow>
   (\<exists>ys. h1 = h @ ys) \<and> fresh_refs n d1"
proof (induction h d acc rule: copy_columns.induct)
  case (1 h acc)
  then show ?case by simp
next
  case (2 h column p rest acc)
  let ?h' = "h @ [h ! p]"
  from "2.prems"(1) have rec: "copy_columns ?h' rest (AList.update column (length h) acc) = (h1, d1)"
    by (simp add: alloc_def)
  have f: "fresh_refs n (AList.update column (length h) acc)"
    using "2.prems"(2,3) by (rule fresh_refs_update)
  from "2.IH" [OF _ rec f] "2.prems"(3) show ?case by (auto simp: alloc_def)
qed

lemma update_types_ref_loop_fresh:
  "update_types_ref_loop np ds h d = (r, h', d') \<Longrightarrow> fresh_refs n d \<Longrightarrow> n \<le> length h \<Longrightarrow>
   (\<exists>ys. h' = h @ ys) \<and> fresh_refs n d'"
proof (induction np ds h d rule: update_types_ref_loop.induct)
  case (1 np h d)
  then show ?case by simp
next
  case (2 np column tag rest h d)
  show ?case
  proof (cases "map_of d column")
    case None
    with "2.prems" show ?thesis by simp
  next
    case (Some p)
    show ?thesis
    proof (cases "format_type (dtype (h ! p)) \<noteq> tag")
      case False
      with Some "2.prems" "2.IH"(2) [OF Some] show ?thesis by simp
    next
      case True
      show ?thesis
      proof (cases "apply_type np tag (h ! p)")
        case (Inl e)
        with Some True "2.prems" show ?thesis by simp
      next
        case (Inr a')
        let ?h1 = "h @ [a']"
        from Some True Inr "2.prems"(1)
        have rec: "update_types_ref_loop np rest ?h1 (AList.update column (length h) d) = (r, h', d')"
          by (simp add: alloc_def)
        have f: "fresh_refs n (AList.update column (length h) d)"
          using "2.prems"(2,3) by (rule fresh_refs_update)
        from "2.IH"(1) [OF Some True Inr _ rec f] "2.prems"(3) show ?thesis
          by (auto simp: alloc_def)
      qed
    qed
  qed
qed

lemma copy_ref_fresh:
  assumes "copy_ref np h t = Inr (h', t')"
  shows "(\<exists>ys. h' = h @ ys) \<and> fresh_refs (length h) (rdata t')"
proof -
  obtain h1 d1 where c: "copy_columns h (rdata t) [] = (h1, d1)"
    by (cases "copy_columns h (rdata t) []")
  from copy_columns_fresh [OF c, of "length h"] obtain ys where
    h1: "h1 = h @ ys" and f1: "fresh_refs (length h) d1"
    by (auto simp: fresh_refs_def)
  let ?ds = "dict_update [] (rdtypes t)"
  from assms c have tr: "Tafra_ref np h1 d1 ?ds = Inr (h', t')" by (simp add: copy_ref_def)
  show ?thesis
  proof (cases "?ds = []")
    case True
    with tr have "h' = h1" "rdata t' = d1"
      by (auto simp: Tafra_ref_def split: sum.splits)
    with h1 f1 show ?thesis by simp
  next
    case False
    with tr obtain r where l: "update_types_ref_loop np ?ds h1 d1 = (r, h', rdata t')"
      by (auto simp: Tafra_ref_def split: sum.splits prod.splits option.splits)
    from update_types_ref_loop_fresh [OF l f1] h1 show ?thesis by auto
  qed
qed

lemma deref_cong:
  "\<forall>(c, p) \<in> set (rdata t). h' ! p = h ! p \<Longrightarrow> deref h' t = deref h t"
  by (auto simp: deref_def)

lemma store_other: "store h q i v = Inr h2 \<Longrightarrow> p \<noteq> q \<Longrightarrow> h2 ! p = h ! p"
  by (auto simp: store_def split: option.splits)

lemma copy_then_store:
  assumes v: "valid_refs h t" and c: "copy_ref np h t = Inr (h', t')"
    and q: "(c', q) \<in> set (rdata t')" and s: "store h' q i v = Inr h2"
  shows "deref h' t = deref h t" and "deref h2 t = deref h t"
proof -
  from copy_ref_fresh [OF c] obtain ys where h': "h' = h @ ys"
    and f: "fresh_refs (length h) (rdata t')" by blast
  from f q have ql: "length h \<le> q" by (auto simp: fresh_refs_def list_all_iff)
  have a: "h' ! p = h ! p" if "(c, p) \<in> set (rdata t)" for c p
    using that v h' by (auto simp: valid_refs_def list_all_iff nth_append)
  have b: "h2 ! p = h ! p" if "(c, p) \<in> set (rdata t)" for c p
  proof -
    from that v have "p < length h" by (auto simp: valid_refs_def list_all_iff)
    with ql have "p \<noteq> q" by simp
    from store_other [OF s this] a [OF that] show ?thesis by simp
  qed
  show "deref h' t = deref h t" using a by (intro deref_cong) auto
  show "deref h2 t = deref h t" using b by (intro deref_cong) auto
qed

lemma map_of_deref:
  "map_of (map (\<lambda>(c, p). (c, h ! p)) d) k = map_option (\<lambda>p. h ! p) (map_of d k)"
  by (induction d) auto

lemma getitem_then_store:
  assumes v: "valid_refs h t" and g: "getitem_ref t item = Inr p"
    and s: "store h p i v = Inr h2"
  shows "\<exists>k. py_index (len (h ! p)) i = Some k \<and> k < len (h ! p)
           \<and> getitem (deref h2 t) item = Inr ((h ! p)\<lparr>elems := (elems (h ! p))[k := v]\<rparr>)
           \<and> elems ((h ! p)\<lparr>elems := (elems (h ! p))[k := v]\<rparr>) ! k = v"
proof -
  from g have m: "map_of (rdata t) item = Some p"
    by (auto simp: getitem_ref_def split: option.splits)
  then have "(item, p) \<in> set (rdata t)" by (rule map_of_SomeD)
  with v have pl: "p < length h" by (auto simp: valid_refs_def list_all_iff)
  from s obtain k where k: "py_index (len (h ! p)) i = Some k"
    and h2: "h2 = h[p := (h ! p)\<lparr>elems := (elems (h ! p))[k := v]\<rparr>]"
    by (auto simp: store_def split: option.splits)
  from k have kl: "k < len (h ! p)"
    by (auto simp: py_index_def Let_def split: if_splits)
  have "getitem (deref h2 t) item = Inr (h2 ! p)"
    using m by (simp add: getitem_def deref_def map_of_deref)
  with h2 pl k kl show ?thesis by (simp add: len_def)
qed

text \<open>
  Claim C7.  Every column of \<open>t.copy()\<close> is a newly allocated array, so the copy leaves
  \<open>t\<close> as it was and a write into any array of the copy leaves every column of \<open>t\<close>
  unchanged.  \<open>t[item]\<close> is the address of the column itself: after a write through it
  at an index in range, the column \<open>item\<close> of \<open>t\<close> holds the written value there.
\<close>

theorem C7_copy_independent_getitem_aliased:
  assumes "valid_refs h t"
  shows "(copy_ref np h t = Inr (h', t') \<and> (c', q) \<in> set (rdata t') \<and> store h' q i v = Inr h2
            \<longrightarrow> fresh_refs (length h) (rdata t')
                \<and> deref h' t = deref h t \<and> deref h2 t = deref h t)
       \<and> (getitem_ref t item = Inr p \<and> store h p j w = Inr h3
            \<longrightarrow> (\<exists>k. py_index (len (h ! p)) j = Some k \<and> k < len (h ! p)
                      \<and> getitem (deref h3 t) item
                          = Inr ((h ! p)\<lparr>elems := (elems (h ! p))[k := w]\<rparr>)
                      \<and> elems ((h ! p)\<lparr>elems := (elems (h ! p))[k := w]\<rparr>) ! k = w))"
proof (rule conjI; rule impI)
  assume "copy_ref np h t = Inr (h', t') \<and> (c', q) \<in> set (rdata t') \<and> store h' q i v = Inr h2"
  then have c: "copy_ref np h t = Inr (h', t')" and q: "(c', q) \<in> set (rdata t')"
    and s: "store h' q i v = Inr h2" by simp_all
  show "fresh_refs (length h) (rdata t') \<and> deref h' t = deref h t \<and> deref h2 t = deref h t"
    using copy_then_store [OF assms c q s] copy_ref_fresh [OF c] by simp
next
  assume "getitem_ref t item = Inr p \<and> store h p j w = Inr h3"
  then have g: "getitem_ref t item = Inr p" and s: "store h p j w = Inr h3" by simp_all
  show "\<exists>k. py_index (len (h ! p)) j = Some k \<and> k < len (h ! p)
          \<and> getitem (deref h3 t) item = Inr ((h ! p)\<lparr>elems := (elems (h ! p))[k := w]\<rparr>)
          \<and> elems ((h ! p)\<lparr>elems := (elems (h ! p))[k := w]\<rparr>) ! k = w"
    by (rule getitem_then_store [OF assms g s])
qed

theorem C7_copy_independent_getitem_aliased_witness:
  "valid_refs example_heap example_ref
   \<and> deref example_heap example_ref = build_tafra
   \<and> copy_ref np_id example_heap example_ref = Inr (example_heap @ example_heap, example_copy)
   \<and> deref (example_heap @ example_heap) example_copy = build_tafra
   \<and> (''x'', 3) \<in> set (rdata example_copy)
   \<and> map_sum id (\<lambda>h2. getitem (deref h2 example_copy) ''x'')
        (store (example_heap @ example_heap) 3 0 (IntV 9))
       = Inr (Inr (int_array [9, 2, 3, 4, 5, 6]))
   \<and> map_sum id (\<lambda>h2. deref h2 example_ref) (store (example_heap @ example_heap) 3 0 (IntV 9))
       = Inr build_tafra
   \<and> getitem_ref example_ref ''x'' = Inr 0
   \<and> map_sum id (\<lambda>h3. getitem (deref h3 example_ref) ''x'') (store example_heap 0 0 (IntV 9))
       = Inr (Inr (int_array [9, 2, 3, 4, 5, 6]))"
proof -
  let ?h' = "example_heap @ example_heap"
  have a: "valid_refs example_heap example_ref" by code_simp
  have b: "deref example_heap example_ref = build_tafra" by code_simp
  have c: "copy_ref np_id example_heap example_ref = Inr (?h', example_copy)" by code_simp
  have d: "deref ?h' example_copy = build_tafra" by code_simp
  have e: "(''x'', 3) \<in> set (rdata example_copy)" by code_simp
  have f: "map_sum id (\<lambda>h2. getitem (deref h2 example_copy) ''x'') (store ?h' 3 0 (IntV 9))
             = Inr (Inr (int_array [9, 2, 3, 4, 5, 6]))" by code_simp
  then obtain h2 where s: "store ?h' 3 0 (IntV 9) = Inr h2"
    by (cases "store ?h' 3 0 (IntV 9)") auto
  have g: "getitem_ref example_ref ''x'' = Inr 0" by code_simp
  have i: "map_sum id (\<lambda>h3. getitem (deref h3 example_ref) ''x'') (store example_heap 0 0 (IntV 9))
             = Inr (Inr (int_array [9, 2, 3, 4, 5, 6]))" by code_simp
  from C7_copy_independent_getitem_aliased
         [OF a, of np_id ?h' example_copy "''x''" 3 0 "IntV 9" h2] c e s
  have "deref h2 example_ref = deref example_heap example_ref" by simp
  with b s have k: "map_sum id (\<lambda>h2. deref h2 example_ref) (store ?h' 3 0 (IntV 9))
                      = Inr build_tafra" by simp
  show ?thesis
    by (intro conjI) (rule a b c d e f k g i)+
qed

section \<open>Union appends\<close>

lemma map_of_map_key:
  "map_of (map (\<lambda>(c, a). (c, f c a)) d) k = map_option (f k) (map_of d k)"
  by (induction d) auto

lemma tafra_union_ok:
  assumes ct: "consistent t" and co: "consistent other"
    and names: "set (columns t) = set (columns other)"
    and tags: "\<forall>c \<in> set (columns t). map_of (dtypes t) c = map_of (dtypes other) c"
  shows "\<exists>r. tafra_union t other = Inr r \<and> rows r = rows t + rows other
           \<and> (\<forall>c \<in> set (columns t). \<exists>a b. getitem t c = Inr a \<and> getitem other c = Inr b
                  \<and> getitem r c = Inr (a\<lparr>elems := elems a @ elems b\<rparr>))"
proof -
  let ?f = "\<lambda>c a. case map_of (data other) c of
                     None \<Rightarrow> a | Some b \<Rightarrow> a\<lparr>elems := elems a @ elems b\<rparr>"
  let ?r = "t\<lparr>data := map (\<lambda>(c, a). (c, ?f c a)) (data t)\<rparr>"
  have u: "tafra_union t other = Inr ?r"
    using names tags by (simp add: tafra_union_def)
  have look: "\<exists>b. map_of (data other) c = Some b \<and> len b = rows other"
    if "c \<in> set (columns t)" for c
  proof -
    from that names have "c \<in> fst ` set (data other)" by (simp add: columns_def)
    then obtain b where b: "map_of (data other) c = Some b"
      using in_keys_map_of by fastforce
    with all_len_map_of [OF consistent_all_len [OF co] b] show ?thesis by simp
  qed
  have rows: "rows ?r = rows t + rows other"
  proof (cases "data t")
    case Nil
    with names have "data other = []" by (simp add: columns_def)
    with Nil show ?thesis by (simp add: rows_def)
  next
    case (Cons p rest)
    obtain c a where p: "p = (c, a)" by (cases p)
    with Cons have "c \<in> set (columns t)" by (simp add: columns_def)
    from look [OF this] obtain b where "map_of (data other) c = Some b" "len b = rows other"
      by blast
    with Cons p show ?thesis by (simp add: rows_def len_def)
  qed
  have cols: "\<exists>a b. getitem t c = Inr a \<and> getitem other c = Inr b
                \<and> getitem ?r c = Inr (a\<lparr>elems := elems a @ elems b\<rparr>)"
    if c: "c \<in> set (columns t)" for c
  proof -
    from c have "c \<in> fst ` set (data t)" by (simp add: columns_def)
    then obtain a where a: "map_of (data t) c = Some a"
      using in_keys_map_of by fastforce
    from look [OF c] obtain b where b: "map_of (data other) c = Some b" by blast
    from a b show ?thesis by (simp add: getitem_def map_of_map_key)
  qed
  from u rows cols show ?thesis by blast
qed

text \<open>
  Claim C2, on the union modelled from the spec.  For two consistent tables with the same
  column names and the same tag for every column, the union succeeds, its row count is
  the sum of the two row counts and each column is the array of the first table followed
  by the array of the second; different name sets fail with the \<open>TypeError\<close> for the
  columns and different tags with the \<open>TypeError\<close> for the tags.  The two row counts need
  not be equal.
\<close>

theorem C2_union_appends:
  assumes "consistent t" and "consistent other"
  shows "(set (columns t) = set (columns other)
            \<and> (\<forall>c \<in> set (columns t). map_of (dtypes t) c = map_of (dtypes other) c)
          \<longrightarrow> (\<exists>r. tafra_union t other = Inr r \<and> rows r = rows t + rows other
                 \<and> (\<forall>c \<in> set (columns t). \<exists>a b. getitem t c = Inr a \<and> getitem other c = Inr b
                        \<and> getitem r c = Inr (a\<lparr>elems := elems a @ elems b\<rparr>))))
       \<and> (set (columns t) \<noteq> set (columns other)
          \<longrightarrow> tafra_union t other = Inl TypeError_columns)
       \<and> (set (columns t) = set (columns other)
            \<and> (\<exists>c \<in> set (columns t). map_of (dtypes t) c \<noteq> map_of (dtypes other) c)
          \<longrightarrow> tafra_union t other = Inl TypeError_dtypes)"
proof (intro conjI)
  show "set (columns t) = set (columns other)
            \<and> (\<forall>c \<in> set (columns t). map_of (dtypes t) c = map_of (dtypes other) c)
          \<longrightarrow> (\<exists>r. tafra_union t other = Inr r \<and> rows r = rows t + rows other
                 \<and> (\<forall>c \<in> set (columns t). \<exists>a b. getitem t c = Inr a \<and> getitem other c = Inr b
                        \<and> getitem r c = Inr (a\<lparr>elems := elems a @ elems b\<rparr>)))"
    using tafra_union_ok [OF assms] by blast
  show "set (columns t) \<noteq> set (columns other) \<longrightarrow> tafra_union t other = Inl TypeError_columns"
    by (simp add: tafra_union_def)
  show "set (columns t) = set (columns other)
            \<and> (\<exists>c \<in> set (columns t). map_of (dtypes t) c \<noteq> map_of (dtypes other) c)
          \<longrightarrow> tafra_union t other = Inl TypeError_dtypes"
    by (simp add: tafra_union_def)
qed

theorem C2_union_appends_witness:
  "consistent two_rows \<and> consistent five_rows
   \<and> rows two_rows = 2 \<and> rows five_rows = 5
   \<and> set (columns two_rows) = set (columns five_rows)
   \<and> list_all (\<lambda>c. map_of (dtypes two_rows) c = map_of (dtypes five_rows) c) (columns two_rows)
   \<and> tafra_union two_rows five_rows =
       Inr \<lparr>data = [(''x'', int_array [1, 2, 0, 1, 2, 3, 4])], dtypes = [(''x'', ''int'')]\<rparr>
   \<and> map_sum id rows (tafra_union two_rows five_rows) = Inr (rows two_rows + rows five_rows)
   \<and> consistent build_tafra
   \<and> tafra_union two_rows build_tafra = Inl TypeError_columns
   \<and> consistent bytes_tafra
   \<and> set (columns two_rows) = set (columns bytes_tafra)
   \<and> list_ex (\<lambda>c. map_of (dtypes two_rows) c \<noteq> map_of (dtypes bytes_tafra) c) (columns two_rows)
   \<and> tafra_union two_rows bytes_tafra = Inl TypeError_dtypes"
proof -
  have a: "consistent two_rows" and b: "consistent five_rows"
    and c: "rows two_rows = 2" and d: "rows five_rows = 5"
    and e: "set (columns two_rows) = set (columns five_rows)"
    and f: "list_all (\<lambda>c. map_of (dtypes two_rows) c = map_of (dtypes five_rows) c)
              (columns two_rows)"
    and g: "tafra_union two_rows five_rows =
       Inr \<lparr>data = [(''x'', int_array [1, 2, 0, 1, 2, 3, 4])], dtypes = [(''x'', ''int'')]\<rparr>"
    and h: "consistent build_tafra" and i: "consistent bytes_tafra"
    and j: "set (columns two_rows) = set (columns bytes_tafra)"
    and k: "list_ex (\<lambda>c. map_of (dtypes two_rows) c \<noteq> map_of (dtypes bytes_tafra) c)
              (columns two_rows)"
    by code_simp+
  have ne: "set (columns two_rows) \<noteq> set (columns build_tafra)" by code_simp
  from C2_union_appends [OF a b] e f obtain r where
    "tafra_union two_rows five_rows = Inr r" "rows r = rows two_rows + rows five_rows"
    by (auto simp: list_all_iff)
  then have l: "map_sum id rows (tafra_union two_rows five_rows)
                  = Inr (rows two_rows + rows five_rows)" by simp
  from C2_union_appends [OF a h] ne
  have m: "tafra_union two_rows build_tafra = Inl TypeError_columns" by blast
  from C2_union_appends [OF a i] j k
  have n: "tafra_union two_rows bytes_tafra = Inl TypeError_dtypes"
    by (auto simp: list_ex_iff)
  show ?thesis
    by (intro conjI) (rule a b c d e f g l h m i j k n)+
qed

text \<open>The \<open>update\<close> of the module is not this operation: it requires equal row counts.\<close>

lemma update_requires_equal_rows:
  "update np_id two_rows five_rows = (Some (ValueError_other_rows 2 5), two_rows)"
  by code_simp

section \<open>Cross join pairs every left row with every right row\<close>

lemma length_repeat_each [simp]: "length (repeat_each n xs) = length xs * n"
  by (induction xs) (auto simp: repeat_each_def)

lemma length_tile [simp]: "length (tile m ys) = m * length ys"
  by (induction m) (auto simp: tile_def)














end
